theory Spec2Isabelle
  imports Complex_Main
begin

section \<open>Python values and exceptions\<close>

text \<open>
  The exceptions that \<^verbatim>\<open>matrix_functional.py\<close> raises itself or lets escape from the
  primitives it calls. The numbers are Python \<^verbatim>\<open>float\<close> and \<^verbatim>\<open>complex\<close> objects, as the
  signatures declare, idealised as reals and as \<^typ>\<open>complex\<close>. Rounding is not
  modelled, nor is the overflow of a sum, difference, product or quotient to \<^verbatim>\<open>inf\<close> or
  \<^verbatim>\<open>nan\<close>, which Python returns without raising. What is modelled is every place where
  the range of a float changes what is raised: \<^verbatim>\<open>scaling**2\<close> raises OverflowError when
  the square has no finite double and is \<^verbatim>\<open>0.0\<close> when the square rounds to zero, and a
  division by \<^verbatim>\<open>0.0\<close> raises ZeroDivisionError.
\<close>

datatype error =
  ValueError | IndexError | ZeroDivisionError | OverflowError | CircuitError | QiskitError

text \<open>
  What a caller can pass as \<^verbatim>\<open>solution\<close> to \<^verbatim>\<open>post_processing\<close>
  (\<^verbatim>\<open>Union[float, List[float]]\<close>): a bare number, a list, or another sequence type.
  The entries are complex because expectation values arrive as complex numbers and the
  method ends with \<^verbatim>\<open>np.real\<close>. They are Python numbers: a list of NumPy scalars, on
  which a zero divisor gives \<^verbatim>\<open>inf\<close> or \<^verbatim>\<open>nan\<close> instead of raising, is outside the
  declared type and outside this model.
\<close>

datatype py_value =
    PyFloat real
  | PyList "complex list"
  | PyTuple "complex list"
  | NdArray "complex list"

text \<open>\<^verbatim>\<open>isinstance(solution, list)\<close>\<close>

fun isinstance_list :: "py_value \<Rightarrow> bool" where
  "isinstance_list (PyList xs) = True"
| "isinstance_list v = False"

text \<open>The entries of a sequence value (none for a bare number).\<close>

fun elements :: "py_value \<Rightarrow> complex list" where
  "elements (PyFloat x) = []"
| "elements (PyList xs) = xs"
| "elements (PyTuple xs) = xs"
| "elements (NdArray xs) = xs"

text \<open>\<^verbatim>\<open>xs[i]\<close> for an index that is not negative: out of range raises IndexError.\<close>

definition getitem :: "'a list \<Rightarrow> nat \<Rightarrow> error + 'a" where
  "getitem xs i = (if i < length xs then Inr (xs ! i) else Inl IndexError)"

text \<open>\<^verbatim>\<open>a / b\<close> on Python numbers: a zero divisor raises ZeroDivisionError.\<close>

definition truediv :: "complex \<Rightarrow> real \<Rightarrow> error + complex" where
  "truediv a b = (if b = 0 then Inl ZeroDivisionError else Inr (a / complex_of_real b))"

text \<open>
  \<^verbatim>\<open>x ** 2\<close> on a Python float. The exact square is rounded to the nearest double: a
  square of at least \<open>2\<^sup>1\<^sup>0\<^sup>2\<^sup>4 - 2\<^sup>9\<^sup>7\<^sup>0\<close> rounds past the largest double and raises
  OverflowError; a square of at most \<open>2\<^sup>-\<^sup>1\<^sup>0\<^sup>7\<^sup>5\<close>, half the smallest positive double,
  rounds to \<^verbatim>\<open>0.0\<close>, which is returned without an error; every other square is returned.
\<close>

definition overflow_bound :: real where
  "overflow_bound = 2 ^ 1024 - 2 ^ 970"

definition underflow_bound :: real where
  "underflow_bound = 1 / 2 ^ 1075"

definition float_pow2 :: "real \<Rightarrow> error + real" where
  "float_pow2 x =
     (if overflow_bound \<le> x\<^sup>2 then Inl OverflowError
      else if x\<^sup>2 \<le> underflow_bound then Inr 0
      else Inr (x\<^sup>2))"

text \<open>\<^verbatim>\<open>range(n)\<close> and \<^verbatim>\<open>range(start, stop, step)\<close> with a positive step.\<close>

definition py_range :: "int \<Rightarrow> nat list" where
  "py_range n = [0..<nat n]"

definition py_range3 :: "nat \<Rightarrow> nat \<Rightarrow> nat \<Rightarrow> nat list" where
  "py_range3 start stop step =
     map (\<lambda>k. start + k * step) [0..<(stop - start + step - 1) div step]"

section \<open>The matrix functional\<close>

text \<open>The object state set by \<^verbatim>\<open>__init__\<close>: \<^verbatim>\<open>_main_diag\<close> and \<^verbatim>\<open>_off_diag\<close>.\<close>

record matrix_functional =
  main_diag :: real
  off_diag :: real

subsection \<open>post_processing\<close>

text \<open>
  The loop \<^verbatim>\<open>for i in range(1, len(solution), 2): off_val += (solution[i] - solution[i + 1]) / (scaling**2)\<close>,
  run over the indices the range produces. Each iteration reads \<^verbatim>\<open>solution[i]\<close>, then
  \<^verbatim>\<open>solution[i + 1]\<close>, then computes \<^verbatim>\<open>scaling**2\<close>, then divides.
\<close>

fun off_val_loop :: "complex list \<Rightarrow> real \<Rightarrow> nat list \<Rightarrow> complex \<Rightarrow> error + complex" where
  "off_val_loop solution scaling [] off_val = Inr off_val"
| "off_val_loop solution scaling (i # rest) off_val =
     (case getitem solution i of
        Inl e \<Rightarrow> Inl e
      | Inr a \<Rightarrow>
          (case getitem solution (i + 1) of
             Inl e \<Rightarrow> Inl e
           | Inr b \<Rightarrow>
               (case float_pow2 scaling of
                  Inl e \<Rightarrow> Inl e
                | Inr square \<Rightarrow>
                    (case truediv (a - b) square of
                       Inl e \<Rightarrow> Inl e
                     | Inr q \<Rightarrow> off_val_loop solution scaling rest (off_val + q)))))"

text \<open>
  \<^verbatim>\<open>isinstance(solution, list)\<close> holds of a list only; every other value raises
  ValueError before anything is read. The argument \<^verbatim>\<open>num_qubits\<close> is accepted and
  never used.
\<close>

definition post_processing ::
  "matrix_functional \<Rightarrow> py_value \<Rightarrow> int \<Rightarrow> real \<Rightarrow> error + real" where
  "post_processing self solution num_qubits scaling =
     (if \<not> isinstance_list solution then Inl ValueError
      else
        (case off_val_loop (elements solution) scaling
                (py_range3 1 (length (elements solution)) 2) 0 of
           Inl e \<Rightarrow> Inl e
         | Inr off_val \<Rightarrow>
             (case getitem (elements solution) 0 of
                Inl e \<Rightarrow> Inl e
              | Inr s0 \<Rightarrow>
                  (case float_pow2 scaling of
                     Inl e \<Rightarrow> Inl e
                   | Inr square \<Rightarrow>
                       (case truediv s0 square of
                          Inl e \<Rightarrow> Inl e
                        | Inr main_val \<Rightarrow>
                            Inr (Re (complex_of_real (main_diag self) * main_val
                                     + complex_of_real (off_diag self) * off_val)))))))"

text \<open>
  The value \<^verbatim>\<open>self._main_diag * main_val + self._off_diag * off_val\<close> that
  \<^verbatim>\<open>np.real\<close> is applied to, written as a sum over the pairs of the list.
\<close>

definition combination :: "matrix_functional \<Rightarrow> complex list \<Rightarrow> real \<Rightarrow> complex" where
  "combination self sol scaling =
     complex_of_real (main_diag self) * (sol ! 0 / complex_of_real (scaling\<^sup>2))
     + complex_of_real (off_diag self) *
       (\<Sum>k<length sol div 2.
          (sol ! (2 * k + 1) - sol ! (2 * k + 2)) / complex_of_real (scaling\<^sup>2))"

section \<open>Operators\<close>

text \<open>
  An \<^verbatim>\<open>Operator\<close> of \<^verbatim>\<open>qiskit.quantum_info\<close> is a dense complex matrix, kept here as
  the list of its rows. An operator on \<open>n\<close> qubits has \<open>2 ^ n\<close> rows and columns.
\<close>

type_synonym operator = "complex list list"

text \<open>\<^verbatim>\<open>Operator.from_label("I")\<close> and \<^verbatim>\<open>Operator.from_label("Z")\<close>\<close>

definition label_I :: operator where
  "label_I = [[1, 0], [0, 1]]"

definition label_Z :: operator where
  "label_Z = [[1, 0], [0, -1]]"

text \<open>Entrywise sum, difference and division by a scalar.\<close>

definition op_add :: "operator \<Rightarrow> operator \<Rightarrow> operator" where
  "op_add a b = map2 (map2 (+)) a b"

definition op_sub :: "operator \<Rightarrow> operator \<Rightarrow> operator" where
  "op_sub a b = map2 (map2 (-)) a b"

definition op_div :: "operator \<Rightarrow> complex \<Rightarrow> operator" where
  "op_div a c = map (map (\<lambda>x. x / c)) a"

text \<open>
  \<^verbatim>\<open>a.tensor(b)\<close> is the Kronecker product \<open>a \<otimes> b\<close>: the factor \<open>a\<close> takes the
  most significant positions, \<open>b\<close> the least significant ones.
\<close>

definition kron_row :: "complex list \<Rightarrow> complex list \<Rightarrow> complex list" where
  "kron_row ra rb = concat (map (\<lambda>x. map (\<lambda>y. x * y) rb) ra)"

definition tensor :: "operator \<Rightarrow> operator \<Rightarrow> operator" where
  "tensor a b = concat (map (\<lambda>ra. map (\<lambda>rb. kron_row ra rb) b) a)"

text \<open>An operator on \<open>n\<close> qubits is a \<open>2 ^ n \<times> 2 ^ n\<close> matrix.\<close>

definition acts_on :: "operator \<Rightarrow> nat \<Rightarrow> bool" where
  "acts_on a n = (length a = 2 ^ n \<and> list_all (\<lambda>r. length r = 2 ^ n) a)"

subsection \<open>observable\<close>

text \<open>\<^verbatim>\<open>zero_op = (I + Z) / 2\<close> and \<^verbatim>\<open>one_op = (I - Z) / 2\<close>\<close>

definition zero_op :: operator where
  "zero_op = op_div (op_add label_I label_Z) 2"

definition one_op :: operator where
  "one_op = op_div (op_sub label_I label_Z) 2"

text \<open>
  \<^verbatim>\<open>x = first; for _ in range(k): x = x.tensor(factor)\<close>: the loop that builds
  \<^verbatim>\<open>norm_op\<close>, \<^verbatim>\<open>prefix_op\<close> and \<^verbatim>\<open>suffix_op\<close>.
\<close>

definition tensor_loop :: "operator \<Rightarrow> operator \<Rightarrow> int \<Rightarrow> operator" where
  "tensor_loop first factor k = fold (\<lambda>_ x. tensor x factor) (py_range k) first"

text \<open>
  \<^verbatim>\<open>prefix_op\<close> starts as one Identity and gains \<open>j - 1\<close> more when \<open>j > 0\<close>; when
  \<open>j = 0\<close> it stays that one Identity.
\<close>

definition prefix_op :: "int \<Rightarrow> operator" where
  "prefix_op j = (if j > 0 then tensor_loop label_I label_I (j - 1) else label_I)"

definition suffix_op :: "int \<Rightarrow> operator" where
  "suffix_op i = tensor_loop one_op one_op (i - 1)"

text \<open>The body of \<^verbatim>\<open>for i in range(num_qubits)\<close>: the two operators appended for \<open>i\<close>.\<close>

definition observable_pair :: "int \<Rightarrow> nat \<Rightarrow> operator list" where
  "observable_pair num_qubits i =
     (let j = num_qubits - int i - 1 in
      if i > 0 then
        [tensor (tensor (prefix_op j) zero_op) (suffix_op (int i)),
         tensor (tensor (prefix_op j) one_op) (suffix_op (int i))]
      else
        [tensor (prefix_op j) zero_op, tensor (prefix_op j) one_op])"

definition observable :: "int \<Rightarrow> operator list" where
  "observable num_qubits =
     (let norm_op = tensor_loop label_I label_I (num_qubits - 1) in
      fold (\<lambda>i observables. observables @ observable_pair num_qubits i)
        (py_range num_qubits) [norm_op])"

section \<open>Circuits\<close>

text \<open>
  A \<^verbatim>\<open>QuantumCircuit\<close> is its number of qubits and the instructions appended so far.
  The only gates this file appends are \<^verbatim>\<open>cx(control, target)\<close> and \<^verbatim>\<open>h(qubit)\<close>.
\<close>

datatype instruction = CX nat nat | H nat

record quantum_circuit =
  num_qubits :: nat
  data :: "instruction list"

text \<open>\<^verbatim>\<open>QuantumCircuit(n)\<close>: the constructor rejects a negative register size.\<close>

definition QuantumCircuit :: "int \<Rightarrow> error + quantum_circuit" where
  "QuantumCircuit n =
     (if n < 0 then Inl CircuitError else Inr \<lparr>num_qubits = nat n, data = []\<rparr>)"

definition cx :: "nat \<Rightarrow> nat \<Rightarrow> quantum_circuit \<Rightarrow> quantum_circuit" where
  "cx control target qc = qc\<lparr>data := data qc @ [CX control target]\<rparr>"

definition h :: "nat \<Rightarrow> quantum_circuit \<Rightarrow> quantum_circuit" where
  "h qubit qc = qc\<lparr>data := data qc @ [H qubit]\<rparr>"

subsection \<open>observable\_circuit\<close>

text \<open>
  The circuit built for \<open>i\<close>: \<^verbatim>\<open>for j in range(0, i): qc.cx(i, j)\<close>, then \<^verbatim>\<open>qc.h(i)\<close>,
  on a fresh empty circuit.
\<close>

definition basis_change :: "quantum_circuit \<Rightarrow> nat \<Rightarrow> quantum_circuit" where
  "basis_change blank i = h i (fold (\<lambda>j qc. cx i j qc) (py_range (int i)) blank)"

text \<open>
  Every call \<^verbatim>\<open>QuantumCircuit(num_qubits)\<close> has the same argument, so the first one
  decides whether the method raises; \<^verbatim>\<open>qcs += [qc, qc]\<close> appends the circuit twice.
\<close>

definition observable_circuit :: "int \<Rightarrow> error + quantum_circuit list" where
  "observable_circuit n =
     (case QuantumCircuit n of
        Inl e \<Rightarrow> Inl e
      | Inr blank \<Rightarrow>
          Inr (fold (\<lambda>i qcs. let qc = basis_change blank i in qcs @ [qc, qc])
                 (py_range n) [blank]))"

section \<open>Running a circuit on a state\<close>

text \<open>
  The execution backend is not part of the repository. It is modelled exactly, on state
  vectors of \<open>2 ^ n\<close> amplitudes in which bit \<open>q\<close> of an index is the value of qubit
  \<open>q\<close>: \<^verbatim>\<open>cx\<close> flips the target bit of every index whose control bit is set, and
  \<^verbatim>\<open>h\<close> replaces the two amplitudes that differ in its qubit by their normalised sum
  and difference.
\<close>

type_synonym statevector = "complex list"

definition bit_set :: "nat \<Rightarrow> nat \<Rightarrow> bool" where
  "bit_set k q = odd (k div 2 ^ q)"

definition flip :: "nat \<Rightarrow> nat \<Rightarrow> nat" where
  "flip k q = (if bit_set k q then k - 2 ^ q else k + 2 ^ q)"

fun apply_instruction :: "instruction \<Rightarrow> statevector \<Rightarrow> statevector" where
  "apply_instruction (CX control target) psi =
     map (\<lambda>k. psi ! (if bit_set k control then flip k target else k)) [0..<length psi]"
| "apply_instruction (H qubit) psi =
     map (\<lambda>k. if bit_set k qubit
               then (psi ! flip k qubit - psi ! k) / complex_of_real (sqrt 2)
               else (psi ! k + psi ! flip k qubit) / complex_of_real (sqrt 2))
       [0..<length psi]"

definition evolve :: "quantum_circuit \<Rightarrow> statevector \<Rightarrow> statevector" where
  "evolve qc psi = fold apply_instruction (data qc) psi"

text \<open>\<^verbatim>\<open>Statevector(circuit).data\<close>: the circuit run on the all-zero basis state.\<close>

definition Statevector :: "quantum_circuit \<Rightarrow> statevector" where
  "Statevector qc = evolve qc (1 # replicate (2 ^ num_qubits qc - 1) 0)"

text \<open>\<^verbatim>\<open>np.dot\<close> of two vectors and of a matrix with a vector: no conjugation.\<close>

definition dot :: "complex list \<Rightarrow> complex list \<Rightarrow> complex" where
  "dot u v = sum_list (map2 (*) u v)"

definition matvec :: "operator \<Rightarrow> complex list \<Rightarrow> complex list" where
  "matvec m v = map (\<lambda>row. dot row v) m"

text \<open>
  The exact expectation value \<open>\<langle>\<psi>|O|\<psi>\<rangle>\<close> of an operator in a state. It exists only
  when the operator has the dimension of the state; otherwise the backend raises.
\<close>

definition expectation_value :: "statevector \<Rightarrow> operator \<Rightarrow> error + complex" where
  "expectation_value psi ob =
     (if length ob = length psi \<and> list_all (\<lambda>row. length row = length psi) ob
      then Inr (dot (map cnj psi) (matvec ob psi))
      else Inl QiskitError)"

subsection \<open>evaluate\_classically\<close>

text \<open>
  \<^verbatim>\<open>scipy.sparse.diags(diagonals, offsets, shape=(n, n)).toarray()\<close> with scalar
  diagonals: entry \<open>(i, j)\<close> holds the diagonal whose offset is \<open>j - i\<close>. An offset that
  does not fit the shape raises ValueError.
\<close>

definition diags :: "real list \<Rightarrow> int list \<Rightarrow> nat \<Rightarrow> error + operator" where
  "diags diagonals offsets n =
     (if list_ex (\<lambda>offset. min (min (int n + offset) (int n - offset)) (int n) < 0) offsets
      then Inl ValueError
      else Inr (map (\<lambda>i. map (\<lambda>j. sum_list (map (\<lambda>(d, offset).
                  if int j - int i = offset then complex_of_real d else 0)
                  (zip diagonals offsets))) [0..<n]) [0..<n]))"

text \<open>The argument is a numeric array or a circuit that prepares the state.\<close>

datatype solution_input = Array "complex list" | Prepared quantum_circuit

definition evaluate_classically :: "matrix_functional \<Rightarrow> solution_input \<Rightarrow> error + complex" where
  "evaluate_classically self solution =
     (let sol = (case solution of Prepared qc \<Rightarrow> Statevector qc | Array x \<Rightarrow> x) in
      case diags [off_diag self, main_diag self, off_diag self] [-1, 0, 1] (length sol) of
        Inl e \<Rightarrow> Inl e
      | Inr matrix \<Rightarrow> Inr (dot sol (matvec matrix sol)))"

section \<open>The estimation pipeline\<close>

text \<open>
  How the three methods are meant to be used together (the class docstring): each circuit
  of \<^verbatim>\<open>observable_circuit\<close> is run on the prepared state \<open>x\<close>, the expectation value
  of the operator of \<^verbatim>\<open>observable\<close> at the same index is taken, and the values go, in
  order, to \<^verbatim>\<open>post_processing\<close>.
\<close>

fun expectation_values ::
  "statevector \<Rightarrow> (quantum_circuit \<times> operator) list \<Rightarrow> error + complex list" where
  "expectation_values x [] = Inr []"
| "expectation_values x ((qc, ob) # rest) =
     (case expectation_value (evolve qc x) ob of
        Inl e \<Rightarrow> Inl e
      | Inr v \<Rightarrow>
          (case expectation_values x rest of
             Inl e \<Rightarrow> Inl e
           | Inr vs \<Rightarrow> Inr (v # vs)))"

definition estimate_with ::
  "operator list \<Rightarrow> matrix_functional \<Rightarrow> int \<Rightarrow> statevector \<Rightarrow> error + real" where
  "estimate_with observables self n x =
     (case observable_circuit n of
        Inl e \<Rightarrow> Inl e
      | Inr qcs \<Rightarrow>
          (case expectation_values x (zip qcs observables) of
             Inl e \<Rightarrow> Inl e
           | Inr vals \<Rightarrow> post_processing self (PyList vals) n 1))"

definition estimate :: "matrix_functional \<Rightarrow> int \<Rightarrow> statevector \<Rightarrow> error + real" where
  "estimate self n x = estimate_with (observable n) self n x"

subsection \<open>The observables as the specification words them\<close>

text \<open>
  The specification's list: the \<open>n\<close>-fold Identity, then for each \<open>i\<close>, with
  \<open>j = n - i - 1\<close>, \<open>j\<close> Identity factors, a projector, and \<open>i\<close> ProjectorOne factors;
  a product of no factors is the \<open>1 \<times> 1\<close> unit. It is kept apart from \<^verbatim>\<open>observable\<close>
  to compare the two.
\<close>

definition tensor_list :: "operator list \<Rightarrow> operator" where
  "tensor_list factors = foldr tensor factors [[1]]"

definition factors :: "nat \<Rightarrow> operator \<Rightarrow> nat \<Rightarrow> operator" where
  "factors j proj i = tensor_list (replicate j label_I @ [proj] @ replicate i one_op)"

definition spec_observable :: "nat \<Rightarrow> operator list" where
  "spec_observable n =
     tensor_list (replicate n label_I) #
     concat (map (\<lambda>i. [factors (n - i - 1) zero_op i, factors (n - i - 1) one_op i]) [0..<n])"

subsection \<open>The matrix as the specification words it\<close>

text \<open>
  Entry \<open>(i, j)\<close> of the tridiagonal Toeplitz matrix: \<open>main_diag\<close> on the diagonal,
  \<open>off_diag\<close> on both adjacent diagonals, zero elsewhere.
\<close>

definition toeplitz_entry :: "matrix_functional \<Rightarrow> nat \<Rightarrow> nat \<Rightarrow> complex" where
  "toeplitz_entry self i j =
     (if i = j then complex_of_real (main_diag self)
      else if i + 1 = j \<or> j + 1 = i then complex_of_real (off_diag self)
      else 0)"

section \<open>Properties of post\_processing\<close>

subsection \<open>The range of the squared scaling\<close>

lemma underflow_bound_positive: "0 < underflow_bound"
  by (simp add: underflow_bound_def)

lemma underflow_bound_less_one: "underflow_bound < 1"
  by (simp add: underflow_bound_def)

lemma overflow_bound_large: "2 ^ 1023 \<le> overflow_bound"
proof -
  have "(2 :: real) ^ 970 \<le> 2 ^ 1023"
    by (rule power_increasing) simp_all
  moreover have "(2 :: real) ^ 1024 = 2 * 2 ^ 1023"
    by (simp flip: power_Suc)
  ultimately show ?thesis
    by (simp add: overflow_bound_def)
qed


lemma four_less_overflow_bound: "4 < overflow_bound"
proof -
  have "(2 :: real) ^ 3 \<le> 2 ^ 1023"
    by (rule power_increasing) simp_all
  with overflow_bound_large show ?thesis
    by simp
qed

lemma float_pow2_in_range:
  assumes "underflow_bound < x\<^sup>2" and "x\<^sup>2 < overflow_bound"
  shows "float_pow2 x = Inr (x\<^sup>2)"
  using assms by (simp add: float_pow2_def)



lemma float_pow2_one: "float_pow2 1 = Inr 1"
  using float_pow2_in_range [of 1] underflow_bound_less_one four_less_overflow_bound by simp

lemma float_pow2_two: "float_pow2 2 = Inr 4"
  using float_pow2_in_range [of 2] underflow_bound_less_one four_less_overflow_bound by simp






subsection \<open>The loop\<close>

lemma off_val_loop_in_range:
  assumes "float_pow2 scaling = Inr square" and "square \<noteq> 0"
    and "\<forall>i\<in>set idxs. i + 1 < length sol"
  shows "off_val_loop sol scaling idxs acc =
           Inr (acc + (\<Sum>i\<leftarrow>idxs. (sol ! i - sol ! (i + 1)) / complex_of_real square))"
  using assms
  by (induction idxs arbitrary: acc) (simp_all add: getitem_def truediv_def add.assoc)




lemma off_val_loop_not_ValueError: "off_val_loop sol scaling idxs acc \<noteq> Inl ValueError"
  by (induction idxs arbitrary: acc)
    (auto simp: getitem_def truediv_def float_pow2_def split: if_splits)


lemma py_range3_pairs: "py_range3 1 n 2 = map (\<lambda>k. 2 * k + 1) [0..<n div 2]"
proof -
  have "(n - 1 + 2 - 1) div 2 = n div 2"
    by (cases n) simp_all
  then show ?thesis
    by (simp add: py_range3_def mult.commute)
qed



subsection \<open>The method on a list of odd length\<close>

lemma post_processing_odd:
  assumes "length sol = 2 * m + 1" and "float_pow2 scaling = Inr square" and "square \<noteq> 0"
  shows "post_processing self (PyList sol) n scaling =
           Inr (Re (complex_of_real (main_diag self) * (sol ! 0 / complex_of_real square)
                + complex_of_real (off_diag self) *
                  (\<Sum>k<m. (sol ! (2 * k + 1) - sol ! (2 * k + 2)) / complex_of_real square)))"
proof -
  have idx: "py_range3 1 (length sol) 2 = map (\<lambda>k. 2 * k + 1) [0..<m]"
    unfolding py_range3_pairs using assms(1) by simp
  have safe: "\<forall>i\<in>set (map (\<lambda>k. 2 * k + 1) [0..<m]). i + 1 < length sol"
    using assms(1) by auto
  have loop: "off_val_loop sol scaling (py_range3 1 (length sol) 2) 0 =
      Inr (\<Sum>k<m. (sol ! (2 * k + 1) - sol ! (2 * k + 2)) / complex_of_real square)"
    unfolding idx off_val_loop_in_range [OF assms(2,3) safe]
    by (simp add: comp_def interv_sum_list_conv_sum_set_nat atLeast0LessThan)
  have nonempty: "0 < length sol"
    using assms(1) by simp
  show ?thesis
    using loop nonempty assms(2,3)
    by (simp add: post_processing_def getitem_def truediv_def)
qed






text \<open>
  Claim C7, as amended. \<^verbatim>\<open>post_processing\<close> has no check of the imaginary part: on
  every list of odd length and every scaling whose square is a non-zero finite float it
  returns the real part of the combination, whatever the imaginary part of the
  combination is. The counterexample below is a list whose combination has imaginary
  part 5 and for which the method returns 1 and raises nothing.
\<close>

theorem post_processing_keeps_real_part:
  assumes "odd (length sol)"
    and "underflow_bound < scaling\<^sup>2" and "scaling\<^sup>2 < overflow_bound"
  shows "post_processing self (PyList sol) n scaling = Inr (Re (combination self sol scaling))"
proof -
  from assms(1) obtain m where m: "length sol = 2 * m + 1"
    by (auto elim: oddE)
  then have half: "length sol div 2 = m"
    by simp
  have square: "float_pow2 scaling = Inr (scaling\<^sup>2)"
    using assms(2,3) by (rule float_pow2_in_range)
  have nonzero: "scaling\<^sup>2 \<noteq> 0"
    using assms(2) underflow_bound_positive by linarith
  show ?thesis
    unfolding post_processing_odd [OF m square nonzero] combination_def half by simp
qed

theorem post_processing_keeps_real_part_witness:
  "post_processing \<lparr>main_diag = 1, off_diag = 0\<rparr> (PyList [Complex 1 5, 0, 0]) 1 1 =
     Inr (Re (combination \<lparr>main_diag = 1, off_diag = 0\<rparr> [Complex 1 5, 0, 0] 1))"
  using post_processing_keeps_real_part
    [of "[Complex 1 5, 0, 0]" 1 "\<lparr>main_diag = 1, off_diag = 0\<rparr>" 1]
    underflow_bound_less_one four_less_overflow_bound
  by simp

theorem imaginary_part_discarded:
  "Im (combination \<lparr>main_diag = 1, off_diag = 0\<rparr> [Complex 1 5, 0, 0] 1) = 5 \<and>
   post_processing \<lparr>main_diag = 1, off_diag = 0\<rparr> (PyList [Complex 1 5, 0, 0]) 1 1 = Inr 1"
  by (simp add: combination_def post_processing_def py_range3_def getitem_def truediv_def
      float_pow2_one)

text \<open>
  Claim C8, as amended. \<^verbatim>\<open>post_processing\<close> raises ValueError exactly when its argument
  is not a list: a bare number, but also a tuple or a numeric array, is rejected, and a
  list never raises ValueError. The counterexample below is a tuple and an array of three
  values, both rejected.
\<close>

theorem ValueError_iff_not_list:
  "(post_processing self v n s = Inl ValueError) = (\<not> isinstance_list v)"
proof (cases "isinstance_list v")
  case False
  then show ?thesis
    by (simp add: post_processing_def)
next
  case True
  have "post_processing self v n s \<noteq> Inl ValueError"
    using True off_val_loop_not_ValueError [of "elements v" s "py_range3 1 (length (elements v)) 2" 0]
    by (auto simp: post_processing_def getitem_def truediv_def float_pow2_def
        split: sum.splits if_splits)
  with True show ?thesis
    by simp
qed

theorem tuple_raises_ValueError:
  "post_processing \<lparr>main_diag = 2, off_diag = 1\<rparr> (PyTuple [1, 0, 0]) 1 1 = Inl ValueError \<and>
   post_processing \<lparr>main_diag = 2, off_diag = 1\<rparr> (NdArray [1, 0, 0]) 1 1 = Inl ValueError"
  by (simp add: post_processing_def)

text \<open>
  Claim C10. The result of \<^verbatim>\<open>post_processing\<close> is the same for any two values of
  \<^verbatim>\<open>num_qubits\<close>, for every argument and every scaling.
\<close>

theorem num_qubits_ignored:
  "post_processing self solution n1 s = post_processing self solution n2 s"
  by (simp add: post_processing_def)

subsection \<open>Index safety of the loop\<close>







section \<open>Properties of observable\_circuit\<close>

lemma fold_append_concat: "fold (\<lambda>i acc. acc @ f i) xs acc0 = acc0 @ concat (map f xs)"
  by (induction xs arbitrary: acc0) simp_all

lemma length_concat_pairs: "length (concat (map (\<lambda>i. [a i, b i]) [0..<n])) = 2 * n"
  by (induction n) simp_all

lemma nth_concat_pairs:
  assumes "i < n"
  shows "concat (map (\<lambda>i. [a i, b i]) [0..<n]) ! (2 * i) = a i"
    and "concat (map (\<lambda>i. [a i, b i]) [0..<n]) ! (2 * i + 1) = b i"
  using assms
proof (induction n)
  case 0
  {
    case 1 then show ?case by simp
  next
    case 2 then show ?case by simp
  }
next
  case (Suc n)
  {
    case 1
    show ?case
    proof (cases "i < n")
      case True
      with Suc.IH(1) show ?thesis
        by (simp add: nth_append length_concat_pairs)
    next
      case False
      with 1 have "i = n" by simp
      then show ?thesis
        by (simp add: nth_append length_concat_pairs)
    qed
  next
    case 2
    show ?case
    proof (cases "i < n")
      case True
      with Suc.IH(2) show ?thesis
        by (simp add: nth_append length_concat_pairs)
    next
      case False
      with 2 have "i = n" by simp
      then show ?thesis
        by (simp add: nth_append length_concat_pairs)
    qed
  }
qed

lemma fold_cx: "fold (\<lambda>j qc. cx i j qc) js qc = qc\<lparr>data := data qc @ map (CX i) js\<rparr>"
  by (induction js arbitrary: qc) (simp_all add: cx_def)

lemma basis_change_data:
  "basis_change \<lparr>num_qubits = m, data = []\<rparr> i =
     \<lparr>num_qubits = m, data = map (CX i) [0..<i] @ [H i]\<rparr>"
  by (simp add: basis_change_def fold_cx h_def py_range_def)

lemma observable_circuit_list:
  assumes "0 \<le> n"
  shows "observable_circuit n =
           Inr (\<lparr>num_qubits = nat n, data = []\<rparr> #
                concat (map (\<lambda>i. [\<lparr>num_qubits = nat n, data = map (CX i) [0..<i] @ [H i]\<rparr>,
                                   \<lparr>num_qubits = nat n, data = map (CX i) [0..<i] @ [H i]\<rparr>])
                         [0..<nat n]))"
  using assms
  by (simp add: observable_circuit_def QuantumCircuit_def Let_def fold_append_concat
      basis_change_data py_range_def)

text \<open>
  Claim C5. For every \<open>n \<ge> 1\<close>, \<^verbatim>\<open>observable_circuit\<close> returns \<open>2n + 1\<close> circuits on
  \<open>n\<close> qubits: the first is empty, and for each \<open>i < n\<close> the circuit made of
  \<^verbatim>\<open>cx(i, j)\<close> for \<open>j = 0, \<dots>, i - 1\<close> in increasing order followed by \<^verbatim>\<open>h(i)\<close> stands
  at index \<open>2i + 1\<close> and, identical, at index \<open>2i + 2\<close>.
\<close>

theorem observable_circuit_layout:
  assumes "1 \<le> n"
  shows "\<exists>qcs. observable_circuit n = Inr qcs \<and>
           length qcs = nat (2 * n + 1) \<and>
           list_all (\<lambda>qc. num_qubits qc = nat n) qcs \<and>
           qcs ! 0 = \<lparr>num_qubits = nat n, data = []\<rparr> \<and>
           (\<forall>i<nat n.
              qcs ! (2 * i + 1) = \<lparr>num_qubits = nat n, data = map (CX i) [0..<i] @ [H i]\<rparr> \<and>
              qcs ! (2 * i + 2) = qcs ! (2 * i + 1))"
proof -
  let ?qc = "\<lambda>i. \<lparr>num_qubits = nat n, data = map (CX i) [0..<i] @ [H i]\<rparr>"
  let ?tail = "concat (map (\<lambda>i. [?qc i, ?qc i]) [0..<nat n])"
  let ?qcs = "\<lparr>num_qubits = nat n, data = []\<rparr> # ?tail"
  have eq: "observable_circuit n = Inr ?qcs"
    using assms by (intro observable_circuit_list) simp
  have len: "length ?qcs = nat (2 * n + 1)"
    using assms by (simp add: length_concat_pairs nat_add_distrib nat_mult_distrib)
  have qubits: "list_all (\<lambda>qc. num_qubits qc = nat n) ?qcs"
    by (auto simp: list_all_iff)
  have pairs: "?qcs ! (2 * i + 1) = ?qc i \<and> ?qcs ! (2 * i + 2) = ?qcs ! (2 * i + 1)"
    if "i < nat n" for i
    using nth_concat_pairs [OF that, of ?qc ?qc] by simp
  show ?thesis
    using eq len qubits pairs by (intro exI [of _ ?qcs]) simp
qed

theorem observable_circuit_layout_witness:
  "\<exists>qcs. observable_circuit 2 = Inr qcs \<and> length qcs = 5 \<and>
     qcs ! 0 = \<lparr>num_qubits = 2, data = []\<rparr> \<and>
     qcs ! 1 = \<lparr>num_qubits = 2, data = [H 0]\<rparr> \<and> qcs ! 2 = qcs ! 1 \<and>
     qcs ! 3 = \<lparr>num_qubits = 2, data = [CX 1 0, H 1]\<rparr> \<and> qcs ! 4 = qcs ! 3"
proof -
  from observable_circuit_layout [of 2] obtain qcs where
    qcs: "observable_circuit 2 = Inr qcs" "length qcs = nat (2 * 2 + 1)"
      "qcs ! 0 = \<lparr>num_qubits = nat 2, data = []\<rparr>"
      "\<forall>i<nat 2. qcs ! (2 * i + 1) = \<lparr>num_qubits = nat 2, data = map (CX i) [0..<i] @ [H i]\<rparr> \<and>
         qcs ! (2 * i + 2) = qcs ! (2 * i + 1)"
    by auto
  have first: "qcs ! (2 * 0 + 1) = \<lparr>num_qubits = nat 2, data = map (CX 0) [0..<0] @ [H 0]\<rparr> \<and>
      qcs ! (2 * 0 + 2) = qcs ! (2 * 0 + 1)"
    by (intro qcs(4) [rule_format]) simp
  have second: "qcs ! (2 * 1 + 1) = \<lparr>num_qubits = nat 2, data = map (CX 1) [0..<1] @ [H 1]\<rparr> \<and>
      qcs ! (2 * 1 + 2) = qcs ! (2 * 1 + 1)"
    by (intro qcs(4) [rule_format]) simp
  have one: "qcs ! 1 = \<lparr>num_qubits = 2, data = [H 0]\<rparr>" and two: "qcs ! 2 = qcs ! 1"
    using first by (simp_all add: numeral_2_eq_2)
  have three: "qcs ! 3 = \<lparr>num_qubits = 2, data = [CX 1 0, H 1]\<rparr>" and four: "qcs ! 4 = qcs ! 3"
    using second by simp_all
  show ?thesis
    using qcs(1-3) one two three four by (intro exI [of _ qcs]) simp
qed

subsection \<open>Arguments below one\<close>

lemma tensor_loop_nonpositive: "k \<le> 0 \<Longrightarrow> tensor_loop first factor k = first"
  by (simp add: tensor_loop_def py_range_def)

theorem builders_accept_zero:
  "observable 0 = [label_I] \<and> observable_circuit 0 = Inr [\<lparr>num_qubits = 0, data = []\<rparr>]"
  by (simp add: observable_def tensor_loop_nonpositive py_range_def observable_circuit_def
      QuantumCircuit_def)

text \<open>
  Claim C6, as amended. Neither builder checks its argument. For every \<open>n < 1\<close>,
  \<^verbatim>\<open>observable\<close> returns the list holding one single-qubit Identity;
  \<^verbatim>\<open>observable_circuit(0)\<close> returns the list holding the empty circuit on no qubits;
  for \<open>n < 0\<close>, \<^verbatim>\<open>observable_circuit\<close> fails only through the circuit constructor,
  which rejects a negative size. At \<open>n = 0\<close> both return.
\<close>

theorem builders_below_one:
  "(n < 1 \<longrightarrow> observable n = [label_I]) \<and>
   observable_circuit 0 = Inr [\<lparr>num_qubits = 0, data = []\<rparr>] \<and>
   (n < 0 \<longrightarrow> observable_circuit n = Inl CircuitError)"
  by (simp add: observable_def tensor_loop_nonpositive py_range_def observable_circuit_def
      QuantumCircuit_def)

theorem builders_below_one_witness:
  "observable (- 1) = [label_I] \<and> observable_circuit (- 1) = Inl CircuitError"
  using builders_below_one [of "- 1"] by simp

section \<open>Properties of observable\<close>

lemma length_tensor: "length (tensor a b) = length a * length b"
  by (induction a) (simp_all add: tensor_def)

lemma kron_row_Cons: "kron_row (x # ra) rb = map (\<lambda>y. x * y) rb @ kron_row ra rb"
  by (simp add: kron_row_def)

lemma kron_row_Nil: "kron_row [] rb = []"
  by (simp add: kron_row_def)

lemma kron_row_append: "kron_row (u @ v) rb = kron_row u rb @ kron_row v rb"
  by (simp add: kron_row_def)

lemma kron_row_scale: "kron_row (map (\<lambda>y. c * y) ra) rb = map (\<lambda>y. c * y) (kron_row ra rb)"
  by (induction ra) (simp_all add: kron_row_Cons kron_row_Nil mult.assoc)

lemma kron_row_assoc: "kron_row (kron_row ra rb) rc = kron_row ra (kron_row rb rc)"
  by (induction ra) (simp_all add: kron_row_Cons kron_row_Nil kron_row_append kron_row_scale)

lemma kron_row_unit_right: "kron_row ra [1] = ra"
  by (induction ra) (simp_all add: kron_row_Cons kron_row_Nil)

lemma kron_row_unit_left: "kron_row [1] rb = rb"
  by (induction rb) (simp_all add: kron_row_def)

lemma tensor_Nil: "tensor [] b = []"
  by (simp add: tensor_def)

lemma tensor_Cons: "tensor (ra # a) b = map (kron_row ra) b @ tensor a b"
  by (simp add: tensor_def)

lemma tensor_append: "tensor (u @ v) c = tensor u c @ tensor v c"
  by (simp add: tensor_def)

lemma tensor_rows: "tensor (map (kron_row ra) b) c = map (kron_row ra) (tensor b c)"
  by (induction b) (simp_all add: tensor_Nil tensor_Cons kron_row_assoc)

lemma tensor_assoc: "tensor (tensor a b) c = tensor a (tensor b c)"
  by (induction a) (simp_all add: tensor_Nil tensor_Cons tensor_append tensor_rows)

lemma tensor_unit_right: "tensor a [[1]] = a"
  by (induction a) (simp_all add: tensor_Nil tensor_Cons kron_row_unit_right)

lemma tensor_unit_left: "tensor [[1]] a = a"
  by (induction a) (simp_all add: tensor_def kron_row_unit_left)

lemma tensor_list_Cons: "tensor_list (f # fs) = tensor f (tensor_list fs)"
  by (simp add: tensor_list_def)

lemma tensor_list_append: "tensor_list (xs @ ys) = tensor (tensor_list xs) (tensor_list ys)"
  by (induction xs) (simp_all add: tensor_list_Cons tensor_assoc, simp add: tensor_list_def tensor_unit_left)

lemma tensor_list_single: "tensor_list [f] = f"
  by (simp add: tensor_list_def tensor_unit_right)

lemma fold_tensor_replicate:
  "fold (\<lambda>_ x. tensor x f) [0..<m] f = tensor_list (replicate (Suc m) f)"
proof (induction m)
  case 0
  show ?case by (simp add: tensor_list_single)
next
  case (Suc m)
  have "replicate (Suc (Suc m)) f = replicate (Suc m) f @ [f]"
    by (simp add: replicate_append_same)
  then show ?case
    using Suc by (simp only: upt_Suc_append fold_append tensor_list_append tensor_list_single)
      simp
qed

lemma tensor_loop_replicate:
  "tensor_loop f f k = tensor_list (replicate (Suc (nat k)) f)"
  by (simp only: tensor_loop_def py_range_def fold_tensor_replicate)

lemma prefix_op_positive:
  assumes "0 < j"
  shows "prefix_op j = tensor_list (replicate (nat j) label_I)"
proof -
  have "Suc (nat (j - 1)) = nat j"
    using assms by linarith
  with assms show ?thesis
    by (simp only: prefix_op_def tensor_loop_replicate if_True)
qed

lemma suffix_op_positive: "0 < i \<Longrightarrow> suffix_op (int i) = tensor_list (replicate i one_op)"
  by (cases i) (simp_all add: suffix_op_def tensor_loop_replicate del: replicate_Suc)

lemma observable_list:
  "observable n =
     tensor_loop label_I label_I (n - 1) # concat (map (observable_pair n) [0..<nat n])"
  by (simp add: observable_def fold_append_concat py_range_def)

lemma zero_op_matrix: "zero_op = [[1, 0], [0, 0]]"
  by (simp add: zero_op_def op_div_def op_add_def label_I_def label_Z_def)

lemma one_op_matrix: "one_op = [[0, 0], [0, 1]]"
  by (simp add: one_op_def op_div_def op_sub_def label_I_def label_Z_def)

text \<open>
  Claim C1 at \<open>n = 1\<close>. The claim gives \<open>[Identity, ProjectorZero, ProjectorOne]\<close>, three
  operators on one qubit (the list \<open>spec_observable 1\<close>). The method returns the
  Identity followed by \<open>Identity \<otimes> ProjectorZero\<close> and \<open>Identity \<otimes> ProjectorOne\<close>:
  its last two entries are \<open>4 \<times> 4\<close> matrices, operators on two qubits, because
  \<^verbatim>\<open>prefix_op\<close> is one Identity, not an empty product, when \<open>j = 0\<close>.
\<close>

theorem observable_one_qubit:
  "observable 1 = [label_I, tensor label_I zero_op, tensor label_I one_op] \<and>
   observable 1 ! 1 = [[1, 0, 0, 0], [0, 0, 0, 0], [0, 0, 1, 0], [0, 0, 0, 0]] \<and>
   observable 1 ! 2 = [[0, 0, 0, 0], [0, 1, 0, 0], [0, 0, 0, 0], [0, 0, 0, 1]] \<and>
   \<not> acts_on (observable 1 ! 1) 1 \<and> \<not> acts_on (observable 1 ! 2) 1 \<and>
   spec_observable 1 = [label_I, zero_op, one_op] \<and>
   observable 1 ! 1 \<noteq> zero_op \<and> observable 1 ! 2 \<noteq> one_op"
  by (simp add: observable_list observable_pair_def prefix_op_def tensor_loop_def py_range_def
      spec_observable_def factors_def tensor_list_def acts_on_def
      zero_op_matrix one_op_matrix label_I_def tensor_def kron_row_def)


lemma tensor_list_Nil: "tensor_list [] = [[1]]"
  by (simp add: tensor_list_def)

lemma factors_unfold:
  "factors j proj i =
     tensor (tensor_list (replicate j label_I)) (tensor proj (tensor_list (replicate i one_op)))"
  by (simp add: factors_def tensor_list_append tensor_list_Cons)

lemma observable_pair_inner:
  assumes "i + 1 < nat n"
  shows "observable_pair n i = [factors (nat n - i - 1) zero_op i, factors (nat n - i - 1) one_op i]"
proof -
  have j: "0 < n - int i - 1" and natj: "nat (n - int i - 1) = nat n - i - 1"
    using assms by linarith+
  have pre: "prefix_op (n - int i - 1) = tensor_list (replicate (nat n - i - 1) label_I)"
    using prefix_op_positive [OF j] natj by simp
  show ?thesis
  proof (cases "i = 0")
    case True
    with pre j show ?thesis
      by (simp add: observable_pair_def factors_unfold tensor_list_Nil tensor_unit_right)
  next
    case False
    then have "0 < i" by simp
    from suffix_op_positive [OF this] pre j \<open>0 < i\<close> show ?thesis
      by (simp add: observable_pair_def factors_unfold tensor_assoc)
  qed
qed

lemma observable_pair_last:
  assumes "i + 1 = nat n"
  shows "observable_pair n i =
           [tensor label_I (factors 0 zero_op i), tensor label_I (factors 0 one_op i)]"
proof -
  have j: "n - int i - 1 = 0"
    using assms by linarith
  have pre: "prefix_op (n - int i - 1) = label_I"
    using j by (simp add: prefix_op_def)
  show ?thesis
  proof (cases "i = 0")
    case True
    with pre show ?thesis
      by (simp add: observable_pair_def factors_unfold tensor_list_Nil tensor_unit_right
          tensor_unit_left)
  next
    case False
    then have "0 < i" by simp
    from suffix_op_positive [OF this] pre \<open>0 < i\<close> show ?thesis
      by (simp add: observable_pair_def factors_unfold tensor_list_Nil tensor_unit_left
          tensor_assoc)
  qed
qed

lemma observable_pair_cases:
  assumes "i < nat n"
  shows "observable_pair n i =
           [if i + 1 < nat n then factors (nat n - i - 1) zero_op i
            else tensor label_I (factors 0 zero_op i),
            if i + 1 < nat n then factors (nat n - i - 1) one_op i
            else tensor label_I (factors 0 one_op i)]"
proof (cases "i + 1 < nat n")
  case True
  then show ?thesis by (simp add: observable_pair_inner)
next
  case False
  with assms have "i + 1 = nat n" by simp
  then show ?thesis by (simp add: observable_pair_last)
qed

lemma spec_observable_factors:
  "spec_observable m =
     tensor_list (replicate m label_I) #
     concat (map (\<lambda>i. [factors (m - i - 1) zero_op i, factors (m - i - 1) one_op i]) [0..<m])"
  by (simp add: spec_observable_def)

lemma observable_factors:
  assumes "1 \<le> n"
  shows "observable n =
     tensor_list (replicate (nat n) label_I) #
     concat (map (\<lambda>i.
        [if i + 1 < nat n then factors (nat n - i - 1) zero_op i
         else tensor label_I (factors 0 zero_op i),
         if i + 1 < nat n then factors (nat n - i - 1) one_op i
         else tensor label_I (factors 0 one_op i)]) [0..<nat n])"
proof -
  have "Suc (nat (n - 1)) = nat n"
    using assms by linarith
  then have norm: "tensor_loop label_I label_I (n - 1) = tensor_list (replicate (nat n) label_I)"
    by (simp only: tensor_loop_replicate)
  have "map (observable_pair n) [0..<nat n] =
      map (\<lambda>i. [if i + 1 < nat n then factors (nat n - i - 1) zero_op i
         else tensor label_I (factors 0 zero_op i),
         if i + 1 < nat n then factors (nat n - i - 1) one_op i
         else tensor label_I (factors 0 one_op i)]) [0..<nat n]"
    by (rule map_cong) (simp_all only: observable_pair_cases set_upt atLeastLessThan_iff)
  then show ?thesis
    by (simp only: observable_list norm)
qed

lemma nth_Cons_concat_pairs:
  assumes "i < n"
  shows "(x # concat (map (\<lambda>i. [a i, b i]) [0..<n])) ! (2 * i + 1) = a i"
    and "(x # concat (map (\<lambda>i. [a i, b i]) [0..<n])) ! (2 * i + 2) = b i"
  using nth_concat_pairs [OF assms, of a b] by simp_all

lemma observable_vs_spec:
  assumes "1 \<le> n"
  shows "observable n ! 0 = spec_observable (nat n) ! 0"
    and "i + 1 < nat n \<Longrightarrow> observable n ! (2 * i + 1) = spec_observable (nat n) ! (2 * i + 1)"
    and "i + 1 < nat n \<Longrightarrow> observable n ! (2 * i + 2) = spec_observable (nat n) ! (2 * i + 2)"
    and "i + 1 = nat n \<Longrightarrow>
           observable n ! (2 * i + 1) = tensor label_I (spec_observable (nat n) ! (2 * i + 1))"
    and "i + 1 = nat n \<Longrightarrow>
           observable n ! (2 * i + 2) = tensor label_I (spec_observable (nat n) ! (2 * i + 2))"
proof -
  note lists = observable_factors [OF assms] spec_observable_factors
  show "observable n ! 0 = spec_observable (nat n) ! 0"
    by (simp add: lists)
  show "observable n ! (2 * i + 1) = spec_observable (nat n) ! (2 * i + 1)" if "i + 1 < nat n"
  proof -
    from that have "i < nat n" by simp
    then show ?thesis
      using that by (simp only: lists nth_Cons_concat_pairs if_True)
  qed
  show "observable n ! (2 * i + 2) = spec_observable (nat n) ! (2 * i + 2)" if "i + 1 < nat n"
  proof -
    from that have "i < nat n" by simp
    then show ?thesis
      using that by (simp only: lists nth_Cons_concat_pairs if_True)
  qed
  show "observable n ! (2 * i + 1) = tensor label_I (spec_observable (nat n) ! (2 * i + 1))"
    if "i + 1 = nat n"
  proof -
    from that have i: "i < nat n" and last: "\<not> i + 1 < nat n" "nat n - i - 1 = 0" by simp_all
    show ?thesis
      by (simp only: lists nth_Cons_concat_pairs [OF i] last if_False)
  qed
  show "observable n ! (2 * i + 2) = tensor label_I (spec_observable (nat n) ! (2 * i + 2))"
    if "i + 1 = nat n"
  proof -
    from that have i: "i < nat n" and last: "\<not> i + 1 < nat n" "nat n - i - 1 = 0" by simp_all
    show ?thesis
      by (simp only: lists nth_Cons_concat_pairs [OF i] last if_False)
  qed
qed

section \<open>Properties of evaluate\_classically\<close>

lemma dot_upt:
  "dot x (map f [0..<length x]) = (\<Sum>i<length x. x ! i * f i)"
proof -
  have "map2 (*) x (map f [0..<length x]) = map (\<lambda>i. x ! i * f i) [0..<length x]"
    by (rule nth_equalityI) simp_all
  then show ?thesis
    by (simp add: dot_def interv_sum_list_conv_sum_set_nat atLeast0LessThan)
qed

lemma dot_upt_left:
  "dot (map f [0..<length x]) x = (\<Sum>j<length x. f j * x ! j)"
proof -
  have "map2 (*) (map f [0..<length x]) x = map (\<lambda>j. f j * x ! j) [0..<length x]"
    by (rule nth_equalityI) simp_all
  then show ?thesis
    by (simp add: dot_def interv_sum_list_conv_sum_set_nat atLeast0LessThan)
qed

lemma diags_tridiagonal:
  assumes "1 \<le> n"
  shows "diags [off_diag self, main_diag self, off_diag self] [- 1, 0, 1] n =
           Inr (map (\<lambda>i. map (\<lambda>j. toeplitz_entry self i j) [0..<n]) [0..<n])"
  using assms by (auto simp: diags_def toeplitz_entry_def)

lemma evaluate_classically_sum:
  assumes "1 \<le> length x"
  shows "evaluate_classically self (Array x) =
           Inr (\<Sum>i<length x. \<Sum>j<length x. x ! i * toeplitz_entry self i j * x ! j)"
proof -
  have "dot x (matvec (map (\<lambda>i. map (\<lambda>j. toeplitz_entry self i j) [0..<length x]) [0..<length x]) x) =
      (\<Sum>i<length x. x ! i * (\<Sum>j<length x. toeplitz_entry self i j * x ! j))"
    by (simp add: matvec_def comp_def dot_upt dot_upt_left)
  also have "\<dots> = (\<Sum>i<length x. \<Sum>j<length x. x ! i * toeplitz_entry self i j * x ! j)"
    by (simp add: sum_distrib_left mult.assoc)
  finally show ?thesis
    by (simp add: evaluate_classically_def diags_tridiagonal [OF assms])
qed

text \<open>
  Claim C4. For every numeric vector \<open>x\<close> of length at least 2,
  \<^verbatim>\<open>evaluate_classically\<close> returns \<open>x\<^sup>t A x = \<Sum>\<^sub>i \<Sum>\<^sub>j x\<^sub>i A\<^sub>i\<^sub>j x\<^sub>j\<close> for the tridiagonal
  Toeplitz matrix \<open>A\<close>, with no conjugation of \<open>x\<close>; with \<open>main_diag = 2\<close> and
  \<open>off_diag = 1\<close> the vector \<open>[1, 1]\<close> gives 6.
\<close>

theorem evaluate_classically_bilinear:
  "(2 \<le> length x \<longrightarrow>
      evaluate_classically self (Array x) =
        Inr (\<Sum>i<length x. \<Sum>j<length x. x ! i * toeplitz_entry self i j * x ! j)) \<and>
   evaluate_classically \<lparr>main_diag = 2, off_diag = 1\<rparr> (Array [1, 1]) = Inr 6"
proof -
  have "evaluate_classically \<lparr>main_diag = 2, off_diag = 1\<rparr> (Array [1, 1]) = Inr 6"
    by (simp add: evaluate_classically_sum toeplitz_entry_def numeral_2_eq_2)
  then show ?thesis
    by (simp add: evaluate_classically_sum)
qed

theorem evaluate_classically_bilinear_witness:
  "evaluate_classically \<lparr>main_diag = 2, off_diag = 1\<rparr> (Array [1, 2, 3]) = Inr 44 \<and>
   evaluate_classically \<lparr>main_diag = 2, off_diag = 1\<rparr> (Array [\<i>, 0]) = Inr (- 2)"
  using evaluate_classically_bilinear [of "[1, 2, 3]" "\<lparr>main_diag = 2, off_diag = 1\<rparr>"]
    evaluate_classically_bilinear [of "[\<i>, 0]" "\<lparr>main_diag = 2, off_diag = 1\<rparr>"]
  by (simp add: toeplitz_entry_def numeral_2_eq_2 numeral_3_eq_3)

section \<open>Properties of the pipeline\<close>

lemma length_apply_instruction: "length (apply_instruction g psi) = length psi"
  by (cases g) simp_all

lemma length_evolve: "length (evolve qc psi) = length psi"
proof -
  have "length (fold apply_instruction gs psi) = length psi" for gs
    by (induction gs arbitrary: psi) (simp_all add: length_apply_instruction)
  then show ?thesis
    by (simp add: evolve_def)
qed

lemma expectation_value_error: "expectation_value psi ob = Inl e \<Longrightarrow> e = QiskitError"
  by (simp add: expectation_value_def split: if_splits)

lemma expectation_values_mismatch:
  assumes "(qc, ob) \<in> set ps" and "length ob \<noteq> length x"
  shows "expectation_values x ps = Inl QiskitError"
  using assms(1)
proof (induction ps)
  case Nil
  then show ?case by simp
next
  case (Cons p ps)
  obtain qc' ob' where p: "p = (qc', ob')"
    by (cases p)
  show ?case
  proof (cases "expectation_value (evolve qc' x) ob'")
    case (Inl e)
    then show ?thesis
      using expectation_value_error [OF Inl] by (simp add: p)
  next
    case (Inr v)
    then have "length ob' = length x"
      by (simp add: expectation_value_def length_evolve split: if_splits)
    with assms(2) Cons.prems p have "(qc, ob) \<in> set ps"
      by auto
    with Cons.IH Inr show ?thesis
      by (simp add: p)
  qed
qed

lemma length_tensor_list: "length (tensor_list fs) = prod_list (map length fs)"
  by (induction fs) (simp_all add: tensor_list_Cons tensor_list_Nil length_tensor)

lemma length_label_I: "length label_I = 2"
  by (simp add: label_I_def)

lemma length_zero_op: "length zero_op = 2"
  by (simp add: zero_op_matrix)

lemma length_one_op: "length one_op = 2"
  by (simp add: one_op_matrix)

lemma length_factors:
  "length proj = 2 \<Longrightarrow> length (factors j proj i) = 2 ^ (j + 1 + i)"
  by (simp add: factors_def length_tensor_list length_label_I length_one_op prod_list_replicate
      power_add)

lemma length_observable: "1 \<le> n \<Longrightarrow> length (observable n) = 2 * nat n + 1"
  by (simp add: observable_factors length_concat_pairs)

lemma observable_last_dim:
  assumes "1 \<le> n"
  shows "length (observable n ! (2 * nat n - 1)) = 2 ^ (nat n + 1)"
proof -
  define i where "i = nat n - 1"
  have i: "nat n = i + 1"
    using assms unfolding i_def by linarith
  then have idx: "2 * nat n - 1 = 2 * i + 1"
    by simp
  have "i < nat n" and "\<not> i + 1 < nat n"
    using i by simp_all
  then show ?thesis
    unfolding idx
    by (simp only: observable_factors [OF assms] nth_Cons_concat_pairs if_False
        length_tensor length_factors [OF length_zero_op] length_label_I i)
      simp
qed

lemma estimate_dimension_mismatch:
  assumes "1 \<le> n" and "length x = 2 ^ nat n"
  shows "estimate self n x = Inl QiskitError"
proof -
  let ?k = "2 * nat n - 1"
  from assms(1) have n0: "0 \<le> n"
    by simp
  from observable_circuit_list [OF n0] obtain qcs where
    qcs: "observable_circuit n = Inr qcs" and len: "length qcs = 2 * nat n + 1"
    by (simp add: length_concat_pairs)
  have k: "?k < length (zip qcs (observable n))"
    using len length_observable [OF assms(1)] by simp
  then have "zip qcs (observable n) ! ?k \<in> set (zip qcs (observable n))"
    by (rule nth_mem)
  then have mem: "(qcs ! ?k, observable n ! ?k) \<in> set (zip qcs (observable n))"
    using k by simp
  have "length (observable n ! ?k) \<noteq> length x"
    unfolding observable_last_dim [OF assms(1)] assms(2) by simp
  from expectation_values_mismatch [OF mem this] show ?thesis
    by (simp add: estimate_def estimate_with_def qcs)
qed

lemma roundtrip_spec_one_qubit:
  "estimate_with (spec_observable 1) self 1 [complex_of_real a, complex_of_real b] =
     Inr (main_diag self * (a\<^sup>2 + b\<^sup>2) + off_diag self * (2 * a * b))"
  apply (simp add: estimate_with_def observable_circuit_list spec_observable_def factors_def
      tensor_list_def tensor_def kron_row_def label_I_def zero_op_matrix one_op_matrix
      expectation_value_def evolve_def dot_def matvec_def bit_set_def flip_def
      post_processing_def py_range3_def getitem_def truediv_def float_pow2_one)
  apply (simp add: power2_eq_square field_simps)
  done

subsection \<open>The pipeline with the specification's observables\<close>

text \<open>
  On one and on two qubits, for every real state vector, the pipeline run with
  \<open>spec_observable\<close> returns the value \<^verbatim>\<open>evaluate_classically\<close> computes.
\<close>

lemma upt_2: "[0..<2] = [0, 1]"
  by (simp add: upt_rec)

lemma observable_circuit_two:
  "observable_circuit 2 =
     Inr [\<lparr>num_qubits = 2, data = []\<rparr>,
          \<lparr>num_qubits = 2, data = [H 0]\<rparr>, \<lparr>num_qubits = 2, data = [H 0]\<rparr>,
          \<lparr>num_qubits = 2, data = [CX 1 0, H 1]\<rparr>, \<lparr>num_qubits = 2, data = [CX 1 0, H 1]\<rparr>]"
  by (simp add: observable_circuit_list upt_2)

lemma spec_observable_two:
  "spec_observable 2 =
     [[[1, 0, 0, 0], [0, 1, 0, 0], [0, 0, 1, 0], [0, 0, 0, 1]],
      [[1, 0, 0, 0], [0, 0, 0, 0], [0, 0, 1, 0], [0, 0, 0, 0]],
      [[0, 0, 0, 0], [0, 1, 0, 0], [0, 0, 0, 0], [0, 0, 0, 1]],
      [[0, 0, 0, 0], [0, 1, 0, 0], [0, 0, 0, 0], [0, 0, 0, 0]],
      [[0, 0, 0, 0], [0, 0, 0, 0], [0, 0, 0, 0], [0, 0, 0, 1]]]"
  by (simp add: spec_observable_def factors_def upt_2 tensor_list_def tensor_def kron_row_def
      label_I_def zero_op_matrix one_op_matrix numeral_2_eq_2)

lemma upt_length_4: "[0..<length [a, b, c, d]] = [0, 1, 2, 3]"
  by (simp add: upt_rec)

lemma evolve_h0:
  "evolve \<lparr>num_qubits = 2, data = [H 0]\<rparr> [a, b, c, d] =
     [(a + b) / complex_of_real (sqrt 2), (a - b) / complex_of_real (sqrt 2),
      (c + d) / complex_of_real (sqrt 2), (c - d) / complex_of_real (sqrt 2)]"
  by (simp add: evolve_def bit_set_def flip_def)

lemma apply_cx_1_0: "apply_instruction (CX 1 0) [a, b, c, d] = [a, b, d, c]"
  by (simp only: apply_instruction.simps upt_length_4) (simp add: bit_set_def flip_def)

lemma apply_h_1:
  "apply_instruction (H 1) [a, b, c, d] =
     [(a + c) / complex_of_real (sqrt 2), (b + d) / complex_of_real (sqrt 2),
      (a - c) / complex_of_real (sqrt 2), (b - d) / complex_of_real (sqrt 2)]"
  by (simp only: apply_instruction.simps upt_length_4) (simp add: bit_set_def flip_def)

lemma evolve_cx_h1:
  "evolve \<lparr>num_qubits = 2, data = [CX 1 0, H 1]\<rparr> [a, b, c, d] =
     [(a + d) / complex_of_real (sqrt 2), (b + c) / complex_of_real (sqrt 2),
      (a - d) / complex_of_real (sqrt 2), (b - c) / complex_of_real (sqrt 2)]"
  by (simp only: evolve_def quantum_circuit.select_convs fold_Cons fold_Nil comp_apply id_apply
      apply_cx_1_0 apply_h_1)

lemma evolve_empty: "evolve \<lparr>num_qubits = m, data = []\<rparr> x = x"
  by (simp add: evolve_def)

lemma sqrt2_sq: "complex_of_real (sqrt 2) * complex_of_real (sqrt 2) = 2"
  by (simp flip: of_real_mult)

lemma div_sqrt2_mult:
  "(u / complex_of_real (sqrt 2)) * (v / complex_of_real (sqrt 2)) = u * v / 2"
  by (simp add: sqrt2_sq)

lemma roundtrip_spec_two_qubits:
  "estimate_with (spec_observable 2) self 2
     [complex_of_real a, complex_of_real b, complex_of_real c, complex_of_real d] =
     Inr (main_diag self * (a\<^sup>2 + b\<^sup>2 + c\<^sup>2 + d\<^sup>2)
          + off_diag self * (2 * a * b + 2 * b * c + 2 * c * d))"
proof -
  let ?x = "[complex_of_real a, complex_of_real b, complex_of_real c, complex_of_real d]"
  have vals: "expectation_values ?x (zip
      [\<lparr>num_qubits = 2, data = []\<rparr>,
       \<lparr>num_qubits = 2, data = [H 0]\<rparr>, \<lparr>num_qubits = 2, data = [H 0]\<rparr>,
       \<lparr>num_qubits = 2, data = [CX 1 0, H 1]\<rparr>, \<lparr>num_qubits = 2, data = [CX 1 0, H 1]\<rparr>]
      (spec_observable 2)) =
    Inr [complex_of_real (a\<^sup>2 + b\<^sup>2 + c\<^sup>2 + d\<^sup>2),
         complex_of_real ((a + b)\<^sup>2 / 2 + (c + d)\<^sup>2 / 2),
         complex_of_real ((a - b)\<^sup>2 / 2 + (c - d)\<^sup>2 / 2),
         complex_of_real ((b + c)\<^sup>2 / 2),
         complex_of_real ((b - c)\<^sup>2 / 2)]"
    unfolding spec_observable_two
    by (simp add: evolve_empty evolve_h0 evolve_cx_h1 expectation_value_def dot_def matvec_def
        sqrt2_sq div_sqrt2_mult power2_eq_square del: One_nat_def)
  show ?thesis
    unfolding estimate_with_def observable_circuit_two sum.case vals
    by (simp add: post_processing_def py_range3_def getitem_def truediv_def float_pow2_one upt_rec)
      (simp add: power2_eq_square field_simps)
qed


lemma evaluate_classically_two:
  "evaluate_classically self (Array [complex_of_real a, complex_of_real b]) =
     Inr (complex_of_real (main_diag self * (a\<^sup>2 + b\<^sup>2) + off_diag self * (2 * a * b)))"
  by (simp add: evaluate_classically_sum toeplitz_entry_def numeral_2_eq_2)
    (simp add: power2_eq_square field_simps)

lemma lessThan_4: "{..<4 :: nat} = {0, 1, 2, 3}"
  by auto

lemma evaluate_classically_four:
  "evaluate_classically self
     (Array [complex_of_real a, complex_of_real b, complex_of_real c, complex_of_real d]) =
     Inr (complex_of_real (main_diag self * (a\<^sup>2 + b\<^sup>2 + c\<^sup>2 + d\<^sup>2)
          + off_diag self * (2 * a * b + 2 * b * c + 2 * c * d)))"
proof -
  have len: "length [complex_of_real a, complex_of_real b, complex_of_real c, complex_of_real d] = 4"
    by simp
  show ?thesis
    unfolding evaluate_classically_sum [of "[complex_of_real a, complex_of_real b, complex_of_real c, complex_of_real d]" self, simplified len, simplified]
    by (simp add: lessThan_4 toeplitz_entry_def power2_eq_square field_simps)
qed

text \<open>
  Claim C2 at \<open>n = 1\<close>, \<open>x = [1, 0]\<close>, \<open>main_diag = 2\<close>, \<open>off_diag = 1\<close>. The classical
  value is 2, and the pipeline run with the observables as the specification words them
  gives 2. Run with the list \<^verbatim>\<open>observable(1)\<close> returns, it yields no value: the
  operator paired with the second circuit has dimension 4 and the state has dimension 2.
\<close>

theorem pipeline_one_qubit:
  "estimate \<lparr>main_diag = 2, off_diag = 1\<rparr> 1 [1, 0] = Inl QiskitError \<and>
   evaluate_classically \<lparr>main_diag = 2, off_diag = 1\<rparr> (Array [1, 0]) = Inr 2 \<and>
   estimate_with (spec_observable 1) \<lparr>main_diag = 2, off_diag = 1\<rparr> 1 [1, 0] = Inr 2"
proof -
  have "estimate \<lparr>main_diag = 2, off_diag = 1\<rparr> 1 [1, 0] = Inl QiskitError"
    by (rule estimate_dimension_mismatch) simp_all
  moreover have "evaluate_classically \<lparr>main_diag = 2, off_diag = 1\<rparr> (Array [1, 0]) = Inr 2"
    by (simp add: evaluate_classically_sum toeplitz_entry_def numeral_2_eq_2)
  moreover have "estimate_with (spec_observable 1) \<lparr>main_diag = 2, off_diag = 1\<rparr> 1 [1, 0] = Inr 2"
    using roundtrip_spec_one_qubit [of "\<lparr>main_diag = 2, off_diag = 1\<rparr>" 1 0] by simp
  ultimately show ?thesis
    by simp
qed

end
